theory Spec2Isabelle
  imports Complex_Main
begin

section \<open>HabitFlow: the habit repository and its analytics (src/app.js)\<close>

subsection \<open>Data model\<close>

text \<open>
  Calendar days. The source keys the ledger by \<^verbatim>\<open>moment().format('YYYY-MM-DD')\<close> and steps
  with \<^verbatim>\<open>subtract(1, 'day')\<close>; a day is modelled by its day number (days since
  1970-01-01, a Thursday), unbounded in both directions, so that the previous day of
  \<open>d\<close> is \<open>d - 1\<close>. The clock (\<^verbatim>\<open>moment()\<close>, \<^verbatim>\<open>Date.now()\<close>) is an input of every operation
  that reads it.
\<close>

type_synonym date = int

definition day :: "date \<Rightarrow> int" where
  \<comment> \<open>\<^verbatim>\<open>moment.day()\<close>: 0 = Sunday ... 6 = Saturday\<close>
  "day d = (d + 4) mod 7"

text \<open>
  A completion event \<^verbatim>\<open>{completed: true, timestamp: '...'}\<close>. It is a JavaScript object,
  hence truthy whatever its fields hold.
\<close>

record completion =
  completed :: bool
  timestamp :: string

type_synonym ledger = "date \<rightharpoonup> (string \<rightharpoonup> completion)"

text \<open>
  The object \<^verbatim>\<open>handleHabitSubmit\<close> passes to \<^verbatim>\<open>addHabit\<close>. \<open>target\<close> is the text of the
  form's input; \<open>selectedDays\<close> and \<open>reminderTime\<close> may be unset (\<^verbatim>\<open>undefined\<close>/\<^verbatim>\<open>null\<close>).
\<close>

record habitData =
  name :: string
  description :: string
  category :: string
  icon :: string
  color :: string
  target :: string
  frequency :: string
  selectedDays :: "int list option"
  reminderTime :: "string option"

record habit =
  id' :: string
  name :: string
  description :: string
  category :: string
  icon :: string
  color :: string
  target :: int
  frequency :: string
  selectedDays :: "int list"
  reminderTime :: "string option"
  createdAt :: date
  streak :: int
  bestStreak :: int
  totalCompletions :: int

text \<open>
  The part of \<^verbatim>\<open>HabitTrackerApp\<close> the engine reads and writes. \<open>customDateStart\<close> and
  \<open>customDateEnd\<close> are \<^verbatim>\<open>null\<close> or a moment.
\<close>

record app =
  habits :: "habit list"
  completions :: ledger
  dateRangeDays :: int
  customDateStart :: "date option"
  customDateEnd :: "date option"

text \<open>
  The habit map of a date is a plain object. Reading \<^verbatim>\<open>m[k]\<close> finds the entry stored
  under \<open>k\<close> and, when there is none, the member of that name which every object
  inherits from \<^verbatim>\<open>Object.prototype\<close>; these members are functions (and, for
  \<^verbatim>\<open>__proto__\<close>, the prototype itself), all truthy. So \<^verbatim>\<open>m[k]\<close> is truthy when \<open>k\<close> has
  an entry or is one of these names. \<^verbatim>\<open>delete m[k]\<close> removes the entry only. The keys of
  the ledger itself are formatted dates, never such a name.
\<close>

definition objectPrototypeKeys :: "string list" where
  "objectPrototypeKeys =
     [''constructor'', ''hasOwnProperty'', ''isPrototypeOf'', ''propertyIsEnumerable'',
      ''toLocaleString'', ''toString'', ''valueOf'', ''__proto__'',
      ''__defineGetter__'', ''__defineSetter__'', ''__lookupGetter__'', ''__lookupSetter__'']"

definition inherited :: "string \<Rightarrow> bool" where
  "inherited k = (k \<in> set objectPrototypeKeys)"

definition truthyAt :: "(string \<rightharpoonup> completion) \<Rightarrow> string \<Rightarrow> bool" where
  \<comment> \<open>\<^verbatim>\<open>m[k]\<close> is truthy\<close>
  "truthyAt m k = (m k \<noteq> None \<or> inherited k)"

definition hasCompletion :: "ledger \<Rightarrow> date \<Rightarrow> string \<Rightarrow> bool" where
  \<comment> \<open>\<^verbatim>\<open>this.completions[dateStr] && this.completions[dateStr][habitId]\<close>\<close>
  "hasCompletion comps d habitId =
     (case comps d of None \<Rightarrow> False | Some m \<Rightarrow> truthyAt m habitId)"

definition entry :: "ledger \<Rightarrow> date \<Rightarrow> string \<Rightarrow> completion option" where
  \<comment> \<open>the event stored for a date and a habit id, if any\<close>
  "entry comps d habitId = (case comps d of None \<Rightarrow> None | Some m \<Rightarrow> m habitId)"

text \<open>
  \<^verbatim>\<open>const habit = this.habits.find(h => h.id === habitId)\<close> yields a reference to the first
  matching element of the array; an assignment to one of its fields changes that
  element in place. \<open>modifyFirst\<close> is that in-place update.
\<close>

fun modifyFirst :: "('a \<Rightarrow> bool) \<Rightarrow> ('a \<Rightarrow> 'a) \<Rightarrow> 'a list \<Rightarrow> 'a list" where
  "modifyFirst p f [] = []"
| "modifyFirst p f (x # xs) = (if p x then f x # xs else x # modifyFirst p f xs)"

subsection \<open>Streak calculator\<close>

text \<open>
  The loop of \<^verbatim>\<open>updateStreak\<close>:
  \<^verbatim>\<open>
    let streak = 0; let currentDate = moment();
    while (true) {
        const dateStr = currentDate.format('YYYY-MM-DD');
        if (this.completions[dateStr] && this.completions[dateStr][habitId]) {
            streak++; currentDate = currentDate.subtract(1, 'day');
        } else { break; }
    }
  \<close>
  It has no bound of its own, so it is a partial function: \<open>None\<close> is "does not return".
\<close>

partial_function (option) updateStreak_loop :: "ledger \<Rightarrow> string \<Rightarrow> date \<Rightarrow> int \<Rightarrow> int option" where
  "updateStreak_loop comps habitId currentDate n =
     (if hasCompletion comps currentDate habitId
      then updateStreak_loop comps habitId (currentDate - 1) (n + 1)
      else Some n)"

definition updateStreak :: "app \<Rightarrow> date \<Rightarrow> string \<Rightarrow> app option" where
  "updateStreak a today habitId =
     (case find (\<lambda>h. id' h = habitId) (habits a) of
        None \<Rightarrow> Some a
      | Some _ \<Rightarrow>
          (case updateStreak_loop (completions a) habitId today 0 of
             None \<Rightarrow> None
           | Some s \<Rightarrow>
               Some (a\<lparr>habits := modifyFirst (\<lambda>h. id' h = habitId)
                                   (\<lambda>h. h\<lparr>streak := s, bestStreak := max (bestStreak h) s\<rparr>)
                                   (habits a)\<rparr>)))"

definition isHabitActiveToday :: "date \<Rightarrow> habit \<Rightarrow> bool" where
  "isHabitActiveToday today h =
     (if frequency h = ''daily'' then True else day today \<in> set (selectedDays h))"

subsection \<open>Habit repository\<close>

text \<open>
  \<^verbatim>\<open>parseInt(string)\<close> without a radix: leading white space is skipped, a sign is read, a
  \<^verbatim>\<open>0x\<close>/\<^verbatim>\<open>0X\<close> prefix selects radix 16, and the longest prefix of digits is the value;
  \<open>None\<close> is \<^verbatim>\<open>NaN\<close>. White space is the ASCII part of the ECMAScript set, and the
  value is the exact integer (a double is exact below \<open>2 ^ 53\<close>).
\<close>

definition isWhiteSpace :: "char \<Rightarrow> bool" where
  "isWhiteSpace c = (of_char c \<in> set [9, 10, 11, 12, 13, 32 :: nat])"

definition digitValue :: "char \<Rightarrow> nat option" where
  "digitValue c =
     (let n = (of_char c :: nat)
      in if 48 \<le> n \<and> n \<le> 57 then Some (n - 48)
         else if 97 \<le> n \<and> n \<le> 122 then Some (n - 87)
         else if 65 \<le> n \<and> n \<le> 90 then Some (n - 55)
         else None)"

fun parseDigits :: "nat \<Rightarrow> string \<Rightarrow> nat list" where
  "parseDigits R [] = []"
| "parseDigits R (c # cs) =
     (case digitValue c of
        None \<Rightarrow> []
      | Some v \<Rightarrow> if v < R then v # parseDigits R cs else [])"

definition parseInt :: "string \<Rightarrow> int option" where
  "parseInt s =
     (let s1 = dropWhile isWhiteSpace s;
          neg = (take 1 s1 = ''-'');
          s2 = (if take 1 s1 = ''-'' \<or> take 1 s1 = ''+'' then drop 1 s1 else s1);
          hex = (take 2 s2 = ''0x'' \<or> take 2 s2 = ''0X'');
          R = (if hex then 16 else 10);
          ds = parseDigits R (if hex then drop 2 s2 else s2);
          v = int (foldl (\<lambda>acc d. acc * R + d) 0 ds)
      in if ds = [] then None else Some (if neg then - v else v))"

text \<open>
  \<^verbatim>\<open>addHabit(habitData)\<close>. \<open>idStamp\<close> is \<^verbatim>\<open>Date.now().toString()\<close> and \<open>today\<close> the day of
  \<^verbatim>\<open>moment()\<close>. \<^verbatim>\<open>x || y\<close> yields \<open>y\<close> when \<open>x\<close> is falsy: \<^verbatim>\<open>NaN\<close> and \<open>0\<close> for the
  number, \<^verbatim>\<open>undefined\<close>/\<^verbatim>\<open>null\<close> for the array of days (an empty array is truthy),
  \<^verbatim>\<open>undefined\<close>/\<^verbatim>\<open>null\<close> and the empty string for the reminder time.
\<close>

definition addHabit :: "app \<Rightarrow> string \<Rightarrow> date \<Rightarrow> habitData \<Rightarrow> app" where
  "addHabit a idStamp today habitData =
     a\<lparr>habits := habits a @
        [\<lparr>id' = idStamp,
          name = habitData.name habitData,
          description = habitData.description habitData,
          category = habitData.category habitData,
          icon = habitData.icon habitData,
          color = habitData.color habitData,
          target = (case parseInt (habitData.target habitData) of
                      None \<Rightarrow> 1
                    | Some n \<Rightarrow> if n = 0 then 1 else n),
          frequency = habitData.frequency habitData,
          selectedDays = (case habitData.selectedDays habitData of
                            None \<Rightarrow> [0, 1, 2, 3, 4, 5, 6]
                          | Some ds \<Rightarrow> ds),
          reminderTime = (case habitData.reminderTime habitData of
                            None \<Rightarrow> None
                          | Some t \<Rightarrow> if t = [] then None else Some t),
          createdAt = today,
          streak = 0,
          bestStreak = 0,
          totalCompletions = 0\<rparr>]\<rparr>"

text \<open>
  \<^verbatim>\<open>deleteHabit(id)\<close>; \<open>confirmed\<close> is the answer to the \<^verbatim>\<open>confirm(...)\<close> dialog. The
  \<^verbatim>\<open>forEach\<close> over \<^verbatim>\<open>Object.keys(this.completions)\<close> deletes the key \<open>id\<close> from the habit map
  of every date that has it.
\<close>

definition deleteHabit :: "app \<Rightarrow> bool \<Rightarrow> string \<Rightarrow> app" where
  "deleteHabit a confirmed habitId =
     (if confirmed
      then a\<lparr>habits := filter (\<lambda>h. id' h \<noteq> habitId) (habits a),
             completions := (\<lambda>d. case completions a d of
                                    None \<Rightarrow> None
                                  | Some m \<Rightarrow> Some (if truthyAt m habitId then m(habitId := None) else m))\<rparr>
      else a)"

text \<open>
  \<^verbatim>\<open>toggleHabitCompletion(habitId)\<close>; \<open>today\<close> is the day and \<open>now\<close> the formatted time of
  \<^verbatim>\<open>moment()\<close>. The habit map of today is created first, before the habit is looked up.
  \<^verbatim>\<open>updateStreak\<close> reads the clock again; the model gives it the same day.
\<close>

definition toggleHabitCompletion :: "app \<Rightarrow> date \<Rightarrow> string \<Rightarrow> string \<Rightarrow> app option" where
  "toggleHabitCompletion a today now habitId =
     (let comps1 = (if completions a today = None
                    then (completions a)(today \<mapsto> Map.empty) else completions a);
          todays = (case comps1 today of None \<Rightarrow> Map.empty | Some m \<Rightarrow> m)
      in case find (\<lambda>h. id' h = habitId) (habits a) of
           None \<Rightarrow> Some (a\<lparr>completions := comps1\<rparr>)
         | Some _ \<Rightarrow>
             if truthyAt todays habitId
             then Some (a\<lparr>completions := comps1(today \<mapsto> todays(habitId := None)),
                          habits := modifyFirst (\<lambda>h. id' h = habitId)
                                      (\<lambda>h. h\<lparr>totalCompletions := max 0 (totalCompletions h - 1)\<rparr>)
                                      (habits a)\<rparr>)
             else updateStreak
                    (a\<lparr>completions := comps1(today \<mapsto>
                                          todays(habitId \<mapsto> \<lparr>completed = True, timestamp = now\<rparr>)),
                       habits := modifyFirst (\<lambda>h. id' h = habitId)
                                   (\<lambda>h. h\<lparr>totalCompletions := totalCompletions h + 1\<rparr>)
                                   (habits a)\<rparr>)
                    today habitId)"

text \<open>A sequence of calls, each with its own clock reading and habit id.\<close>

fun toggleAll :: "app \<Rightarrow> (date \<times> string \<times> string) list \<Rightarrow> app option" where
  "toggleAll a [] = Some a"
| "toggleAll a ((today, now, habitId) # calls) =
     (case toggleHabitCompletion a today now habitId of
        None \<Rightarrow> None
      | Some a' \<Rightarrow> toggleAll a' calls)"

subsection \<open>Import\<close>

text \<open>
  \<^verbatim>\<open>importData\<close> assigns the parsed values to \<^verbatim>\<open>this.habits\<close>, \<^verbatim>\<open>this.completions\<close> and
  \<^verbatim>\<open>this.settings\<close> as they are, whatever their shape, so the operation is modelled on
  the JSON image of these three fields. An object lists its members in the order of the
  text; \<^verbatim>\<open>JSON.parse\<close> keeps the last of several members with one key.
\<close>

datatype json =
    JUndefined \<comment> \<open>the value of a missing property; \<^verbatim>\<open>JSON.parse\<close> never yields it\<close>
  | JNull
  | JBool bool
  | JNumber real
  | JString string
  | JArray "json list"
  | JObject "(string \<times> json) list"

datatype js_error = SyntaxError | TypeError | Error string

record stored =
  habits_json :: json
  completions_json :: json
  settings_json :: json

fun getProp :: "json \<Rightarrow> string \<Rightarrow> js_error + json" where
  \<comment> \<open>\<^verbatim>\<open>data.key\<close>, for the three keys read here\<close>
  "getProp JNull k = Inl TypeError"
| "getProp JUndefined k = Inl TypeError"
| "getProp (JObject members) k =
     Inr (case map_of (rev members) k of None \<Rightarrow> JUndefined | Some v \<Rightarrow> v)"
| "getProp _ k = Inr JUndefined"

fun truthy :: "json \<Rightarrow> bool" where
  "truthy JUndefined = False"
| "truthy JNull = False"
| "truthy (JBool b) = b"
| "truthy (JNumber x) = (x \<noteq> 0)"
| "truthy (JString s) = (s \<noteq> [])"
| "truthy (JArray _) = True"
| "truthy (JObject _) = True"

text \<open>
  The body of \<^verbatim>\<open>reader.onload\<close>. \<open>parsed\<close> is the result of \<^verbatim>\<open>JSON.parse\<close>, \<open>None\<close> when
  it throws. The result pairs the error the \<^verbatim>\<open>catch\<close> block receives (it is logged and
  shown as the toast \<^verbatim>\<open>'Error importing data'\<close>) with the state left behind. The calls
  that follow the assignments (saving, rendering, the toast, the reload) belong to the
  presentation layer and are not part of the model.
\<close>

definition importData :: "stored \<Rightarrow> json option \<Rightarrow> js_error option \<times> stored" where
  "importData st parsed =
     (case parsed of
        None \<Rightarrow> (Some SyntaxError, st)
      | Some data \<Rightarrow>
          (case getProp data ''habits'' of
             Inl e \<Rightarrow> (Some e, st)
           | Inr h \<Rightarrow>
               (case getProp data ''completions'' of
                  Inl e \<Rightarrow> (Some e, st)
                | Inr c \<Rightarrow>
                    if truthy h \<and> truthy c
                    then (let st1 = st\<lparr>habits_json := h, completions_json := c\<rparr>
                          in case getProp data ''settings'' of
                               Inl e \<Rightarrow> (Some e, st1)
                             | Inr s \<Rightarrow> (None, if truthy s then st1\<lparr>settings_json := s\<rparr> else st1))
                    else (Some (Error ''Invalid data format''), st))))"

definition hasKey :: "json \<Rightarrow> string \<Rightarrow> bool" where
  \<comment> \<open>the payload is an object with a member of that key\<close>
  "hasKey data k = (case data of JObject members \<Rightarrow> k \<in> fst ` set members | _ \<Rightarrow> False)"

subsection \<open>Analytics\<close>

text \<open>
  JavaScript numbers are doubles; the metrics are modelled in exact real arithmetic.
  Counts are integers and exact in either. Every division below sits behind the same
  guard as in the source.
\<close>

definition getDateRangeData :: "app \<Rightarrow> date \<Rightarrow> date list" where
  "getDateRangeData a today =
     (let days = (case (customDateStart a, customDateEnd a) of
                    (Some s, Some e) \<Rightarrow> e - s + 1
                  | _ \<Rightarrow> dateRangeDays a);
          startDate = (case customDateStart a of
                         Some s \<Rightarrow> s
                       | None \<Rightarrow> today - (days - 1))
      in map (\<lambda>i. startDate + i) [0..days - 1])"

definition calculateCorrelation :: "app \<Rightarrow> date \<Rightarrow> string \<Rightarrow> string \<Rightarrow> real" where
  "calculateCorrelation a today habitId1 habitId2 =
     (let dateRange = getDateRangeData a today;
          completions1 = map (\<lambda>d. if hasCompletion (completions a) d habitId1 then 1 else 0) dateRange;
          completions2 = map (\<lambda>d. if hasCompletion (completions a) d habitId2 then 1 else 0) dateRange;
          n = real (length completions1)
      in if n = 0 then 0
         else
           let sum1 = foldl (\<lambda>a b. a + b) 0 completions1;
               sum2 = foldl (\<lambda>a b. a + b) 0 completions2;
               sum1Sq = foldl (\<lambda>a b. a + b * b) 0 completions1;
               sum2Sq = foldl (\<lambda>a b. a + b * b) 0 completions2;
               pSum = foldl (\<lambda>a (b, i). a + b * completions2 ! i) 0
                        (zip completions1 [0..<length completions1]);
               num = pSum - (sum1 * sum2 / n);
               den = sqrt ((sum1Sq - sum1 * sum1 / n) * (sum2Sq - sum2 * sum2 / n))
           in if den = 0 then 0 else num / den)"

text \<open>
  The matrix of \<^verbatim>\<open>renderCorrelationHeatmap\<close>: none with fewer than two habits; otherwise
  over the six habits with the most completions (\<^verbatim>\<open>sort\<close> is stable, as is \<open>sort_key\<close>).
\<close>

definition topHabits :: "app \<Rightarrow> habit list" where
  "topHabits a = take 6 (sort_key (\<lambda>h. - totalCompletions h) (habits a))"

definition correlationMatrix :: "app \<Rightarrow> date \<Rightarrow> real list list option" where
  "correlationMatrix a today =
     (if length (habits a) < 2 then None
      else Some (map (\<lambda>habit1.
                   map (\<lambda>habit2. if id' habit1 = id' habit2 then 1
                                  else calculateCorrelation a today (id' habit1) (id' habit2))
                       (topHabits a))
                 (topHabits a)))"

definition getLast30DaysCompletions :: "app \<Rightarrow> date \<Rightarrow> string \<Rightarrow> nat" where
  "getLast30DaysCompletions a today habitId =
     length (filter (\<lambda>i. hasCompletion (completions a) (today - int i) habitId) [0..<30])"

definition getLast30DaysPossible :: "date \<Rightarrow> habit \<Rightarrow> nat" where
  "getLast30DaysPossible today h =
     length (filter (\<lambda>i. frequency h = ''daily'' \<or> day (today - int i) \<in> set (selectedDays h))
               [0..<30])"

definition consistencyScore :: "app \<Rightarrow> date \<Rightarrow> habit \<Rightarrow> real" where
  \<comment> \<open>per habit, in \<^verbatim>\<open>renderConsistencyRadarChart\<close>\<close>
  "consistencyScore a today h =
     (let last30 = getLast30DaysCompletions a today (id' h);
          possible = getLast30DaysPossible today h
      in if possible > 0 then (real last30 / real possible) * 100 else 0)"

definition targetCompletions :: "app \<Rightarrow> date \<Rightarrow> string \<Rightarrow> int" where
  "targetCompletions a today cat =
     foldl (\<lambda>s h. s + int (getLast30DaysPossible today h) * target h) 0
       (filter (\<lambda>h. category h = cat) (habits a))"

definition actualCompletions :: "app \<Rightarrow> date \<Rightarrow> string \<Rightarrow> int" where
  "actualCompletions a today cat =
     foldl (\<lambda>s h. s + int (getLast30DaysCompletions a today (id' h))) 0
       (filter (\<lambda>h. category h = cat) (habits a))"

definition targetAchievement :: "app \<Rightarrow> date \<Rightarrow> string \<Rightarrow> real" where
  \<comment> \<open>per category, in \<^verbatim>\<open>renderTargetRadarChart\<close>: \<^verbatim>\<open>Math.min(totalAchievement, 100)\<close>\<close>
  "targetAchievement a today cat =
     (let totalAchievement =
            (if targetCompletions a today cat > 0
             then (real_of_int (actualCompletions a today cat)
                     / real_of_int (targetCompletions a today cat)) * 100
             else 0)
      in min totalAchievement 100)"

definition completionRate :: "app \<Rightarrow> date \<Rightarrow> int" where
  \<comment> \<open>\<open>rate\<close> in \<^verbatim>\<open>updateStats\<close>; \<^verbatim>\<open>Math.round(x)\<close> is \<open>\<lfloor>x + 1/2\<rfloor>\<close>\<close>
  "completionRate a today =
     (let todaysHabits = filter (isHabitActiveToday today) (habits a);
          completedN = length (filter (\<lambda>h. hasCompletion (completions a) today (id' h)) todaysHabits)
      in if length todaysHabits > 0
         then \<lfloor>(real completedN / real (length todaysHabits)) * 100 + 1 / 2\<rfloor>
         else 0)"

subsection \<open>Example data\<close>

definition exampleHabit :: "string \<Rightarrow> string \<Rightarrow> int list \<Rightarrow> habit" where
  "exampleHabit i f ds =
     \<lparr>id' = i, name = ''Code Practice'', description = [], category = ''productivity'',
      icon = ''fa-code'', color = ''#f59e0b'', target = 1, frequency = f, selectedDays = ds,
      reminderTime = None, createdAt = 0, streak = 0, bestStreak = 0, totalCompletions = 0\<rparr>"

definition doneAt :: "string \<Rightarrow> completion" where
  "doneAt t = \<lparr>completed = True, timestamp = t\<rparr>"

text \<open>
  Day 4 is Monday 1970-01-05 and day 9 the Saturday after it. The ledger holds the
  completions of habit \<open>5\<close> from Monday to Friday.
\<close>

definition weekdaysLedger :: ledger where
  "weekdaysLedger =
     [4 \<mapsto> [''5'' \<mapsto> doneAt ''1970-01-05 19:00:00''],
      5 \<mapsto> [''5'' \<mapsto> doneAt ''1970-01-06 19:00:00''],
      6 \<mapsto> [''5'' \<mapsto> doneAt ''1970-01-07 19:00:00''],
      7 \<mapsto> [''5'' \<mapsto> doneAt ''1970-01-08 19:00:00''],
      8 \<mapsto> [''5'' \<mapsto> doneAt ''1970-01-09 19:00:00'']]"

definition weekdaysApp :: app where
  "weekdaysApp =
     \<lparr>habits = [exampleHabit ''5'' ''custom'' [1, 2, 3, 4, 5]
                   \<lparr>streak := 5, bestStreak := 5, totalCompletions := 5\<rparr>],
      completions = weekdaysLedger,
      dateRangeDays = 30, customDateStart = None, customDateEnd = None\<rparr>"

definition emptyApp :: app where
  "emptyApp = \<lparr>habits = [], completions = Map.empty,
                dateRangeDays = 30, customDateStart = None, customDateEnd = None\<rparr>"

definition exampleForm :: "string \<Rightarrow> int list option \<Rightarrow> habitData" where
  "exampleForm t ds =
     \<lparr>habitData.name = ''Read 20 Pages'', habitData.description = [],
      habitData.category = ''learning'', habitData.icon = ''fa-book'',
      habitData.color = ''#f093fb'', habitData.target = t,
      habitData.frequency = ''daily'', habitData.selectedDays = ds,
      habitData.reminderTime = Some []\<rparr>"

text \<open>Two habits, \<open>1\<close> and \<open>2\<close>, both completed on day 10, habit \<open>1\<close> also on day 11.\<close>

definition twoHabitsApp :: app where
  "twoHabitsApp =
     \<lparr>habits = [exampleHabit ''1'' ''daily'' [0, 1, 2, 3, 4, 5, 6]\<lparr>totalCompletions := 2\<rparr>,
                exampleHabit ''2'' ''daily'' [0, 1, 2, 3, 4, 5, 6]\<lparr>totalCompletions := 1\<rparr>],
      completions = [10 \<mapsto> [''1'' \<mapsto> doneAt ''a'', ''2'' \<mapsto> doneAt ''b''],
                     11 \<mapsto> [''1'' \<mapsto> doneAt ''c'']],
      dateRangeDays = 30, customDateStart = None, customDateEnd = None\<rparr>"

definition emptyStored :: stored where
  "emptyStored = \<lparr>habits_json = JArray [], completions_json = JObject [],
                   settings_json = JObject [(''theme'', JString ''light'')]\<rparr>"

text \<open>The invariant of the three derived counters of a habit.\<close>

definition countersOk :: "habit \<Rightarrow> bool" where
  "countersOk h = (0 \<le> streak h \<and> streak h \<le> bestStreak h \<and> 0 \<le> totalCompletions h)"

definition streaksOf :: "app option \<Rightarrow> int list option" where
  "streaksOf r = map_option (\<lambda>a. map streak (habits a)) r"

definition totalsOf :: "app option \<Rightarrow> int list option" where
  "totalsOf r = map_option (\<lambda>a. map totalCompletions (habits a)) r"

text \<open>
  Habit \<open>1\<close> is completed on day 10 while its counter of completions is 0, as in
  imported data.
\<close>

definition staleCounterApp :: app where
  "staleCounterApp =
     \<lparr>habits = [exampleHabit ''1'' ''daily'' [0, 1, 2, 3, 4, 5, 6]],
      completions = [10 \<mapsto> [''1'' \<mapsto> doneAt ''1970-01-11 08:00:00'']],
      dateRangeDays = 30, customDateStart = None, customDateEnd = None\<rparr>"

text \<open>
  One habit with frequency \<open>custom\<close> and no selected weekday, and an empty ledger: no
  habit is ever due.
\<close>

definition idleApp :: app where
  "idleApp =
     \<lparr>habits = [exampleHabit ''7'' ''custom'' []],
      completions = Map.empty,
      dateRangeDays = 30, customDateStart = None, customDateEnd = None\<rparr>"


subsection \<open>Facts about the streak loop\<close>

lemma updateStreak_loop_run:
  "(\<forall>i<k. hasCompletion comps (d - int i) habitId) \<Longrightarrow>
   \<not> hasCompletion comps (d - int k) habitId \<Longrightarrow>
   updateStreak_loop comps habitId d n = Some (n + int k)"
proof (induction k arbitrary: d n)
  case 0
  then show ?case by (simp add: updateStreak_loop.simps)
next
  case (Suc k)
  from Suc.prems(1) have here: "hasCompletion comps d habitId" by force
  have "\<forall>i<k. hasCompletion comps (d - 1 - int i) habitId"
  proof (intro allI impI)
    fix i assume "i < k"
    then have "hasCompletion comps (d - int (Suc i)) habitId" using Suc.prems(1) by blast
    then show "hasCompletion comps (d - 1 - int i) habitId" by (simp add: algebra_simps)
  qed
  moreover have "\<not> hasCompletion comps (d - 1 - int k) habitId"
    using Suc.prems(2) by (simp add: algebra_simps)
  ultimately have "updateStreak_loop comps habitId (d - 1) (n + 1) = Some (n + 1 + int k)"
    by (rule Suc.IH)
  with here show ?case
    by (subst updateStreak_loop.simps) simp
qed

lemma hasCompletion_dom: "hasCompletion comps d habitId \<Longrightarrow> d \<in> dom comps"
  by (auto simp: hasCompletion_def split: option.splits)

lemma inherited_digit_ids [simp]:
  "\<not> inherited ''1''" "\<not> inherited ''2''" "\<not> inherited ''5''" "\<not> inherited ''7''"
  by (simp_all add: inherited_def objectPrototypeKeys_def)

lemma first_gap:
  assumes fin: "finite (dom comps)"
  shows "\<exists>k. k \<le> card (dom comps) \<and> (\<forall>i<k. hasCompletion comps (d - int i) habitId)
             \<and> \<not> hasCompletion comps (d - int k) habitId"
proof -
  let ?P = "\<lambda>k. \<not> hasCompletion comps (d - int k) habitId"
  have ex: "\<exists>k\<le>card (dom comps). ?P k"
  proof (rule ccontr)
    assume "\<not> (\<exists>k\<le>card (dom comps). ?P k)"
    then have all: "\<forall>k\<le>card (dom comps). d - int k \<in> dom comps"
      by (auto dest: hasCompletion_dom)
    have inj: "inj_on (\<lambda>k. d - int k) {..card (dom comps)}"
      by (auto simp: inj_on_def)
    have "(\<lambda>k. d - int k) ` {..card (dom comps)} \<subseteq> dom comps"
      using all by auto
    then have "card ((\<lambda>k. d - int k) ` {..card (dom comps)}) \<le> card (dom comps)"
      using fin by (rule card_mono[rotated])
    then show False using inj by (simp add: card_image)
  qed
  define k where "k = (LEAST k. ?P k)"
  from ex obtain k0 where k0: "k0 \<le> card (dom comps)" "?P k0" by blast
  have "?P k" unfolding k_def using k0(2) by (rule LeastI)
  moreover have "k \<le> k0" unfolding k_def using k0(2) by (rule Least_le)
  moreover have "\<forall>i<k. hasCompletion comps (d - int i) habitId"
    unfolding k_def using not_less_Least by blast
  ultimately show ?thesis using k0(1) by (intro exI[of _ k]) auto
qed

lemma updateStreak_loop_total:
  assumes "finite (dom comps)"
  shows "\<exists>k. k \<le> card (dom comps) \<and> updateStreak_loop comps habitId d n = Some (n + int k)
             \<and> (\<forall>i<k. hasCompletion comps (d - int i) habitId)
             \<and> \<not> hasCompletion comps (d - int k) habitId"
proof -
  from first_gap[OF assms] obtain k where
    k: "k \<le> card (dom comps)" "\<forall>i<k. hasCompletion comps (d - int i) habitId"
       "\<not> hasCompletion comps (d - int k) habitId" by blast
  from updateStreak_loop_run[OF k(2) k(3)] k show ?thesis by blast
qed

lemma modifyFirst_no_match: "find p xs = None \<Longrightarrow> modifyFirst p f xs = xs"
  by (induction xs) (auto split: if_splits)

subsection \<open>The streak walk\<close>

text \<open>
  C1, as the source has it. \<^verbatim>\<open>updateStreak\<close> walks backward day by day from today and
  counts the days completed in the ledger; it stops at the first day that is not
  completed, whether or not the habit was due on that day: \<open>frequency\<close> and
  \<open>selectedDays\<close> are not read. With \<open>k\<close> completed days ending today and day
  \<open>today - k\<close> not completed, the streak becomes \<open>k\<close> and the best streak the larger of
  its old value and \<open>k\<close>.
\<close>

theorem updateStreak_counts_consecutive_days:
  assumes "\<forall>i<k. hasCompletion (completions a) (today - int i) habitId"
    and "\<not> hasCompletion (completions a) (today - int k) habitId"
  shows "updateStreak a today habitId =
           Some (a\<lparr>habits := modifyFirst (\<lambda>h. id' h = habitId)
                               (\<lambda>h. h\<lparr>streak := int k, bestStreak := max (bestStreak h) (int k)\<rparr>)
                               (habits a)\<rparr>)"
proof (cases "find (\<lambda>h. id' h = habitId) (habits a)")
  case None
  then show ?thesis by (simp add: updateStreak_def modifyFirst_no_match)
next
  case (Some h)
  have "updateStreak_loop (completions a) habitId today 0 = Some (0 + int k)"
    using assms by (rule updateStreak_loop_run)
  with Some show ?thesis by (simp add: updateStreak_def)
qed

lemma weekdaysLedger_has:
  "hasCompletion weekdaysLedger d ''5'' = (d \<in> {4, 5, 6, 7, 8})"
  by (simp add: weekdaysLedger_def hasCompletion_def truthyAt_def)

theorem updateStreak_counts_consecutive_days_witness:
  "hasCompletion (completions weekdaysApp) 8 ''5'' \<and> hasCompletion (completions weekdaysApp) 7 ''5''
   \<and> hasCompletion (completions weekdaysApp) 6 ''5'' \<and> hasCompletion (completions weekdaysApp) 5 ''5''
   \<and> hasCompletion (completions weekdaysApp) 4 ''5''
   \<and> \<not> hasCompletion (completions weekdaysApp) 3 ''5''
   \<and> streaksOf (updateStreak weekdaysApp 8 ''5'') = Some [5]"
proof -
  have c: "completions weekdaysApp = weekdaysLedger" by (simp add: weekdaysApp_def)
  have h1: "\<forall>i<5. hasCompletion (completions weekdaysApp) (8 - int i) ''5''"
    unfolding c weekdaysLedger_has by (auto simp: less_Suc_eq eval_nat_numeral)
  have h2: "\<not> hasCompletion (completions weekdaysApp) (8 - int 5) ''5''"
    unfolding c weekdaysLedger_has by simp
  show ?thesis
    using updateStreak_counts_consecutive_days [OF h1 h2]
    by (simp add: weekdaysApp_def exampleHabit_def weekdaysLedger_has streaksOf_def)
qed

text \<open>
  C1, as the claim states it, fails on its own scenario: the habit is scheduled Monday to
  Friday and completed on all five days, Saturday is not a due day, and the streak
  computed on that Saturday is 0, not 5.
\<close>

theorem updateStreak_weekend_counterexample:
  "day 9 = 6
   \<and> \<not> isHabitActiveToday 9 (exampleHabit ''5'' ''custom'' [1, 2, 3, 4, 5])
   \<and> hasCompletion weekdaysLedger 4 ''5'' \<and> hasCompletion weekdaysLedger 5 ''5''
   \<and> hasCompletion weekdaysLedger 6 ''5'' \<and> hasCompletion weekdaysLedger 7 ''5''
   \<and> hasCompletion weekdaysLedger 8 ''5''
   \<and> updateStreak_loop weekdaysLedger ''5'' 9 0 = Some 0
   \<and> streaksOf (Some weekdaysApp) = Some [5]
   \<and> streaksOf (updateStreak weekdaysApp 8 ''5'') = Some [5]
   \<and> streaksOf (updateStreak weekdaysApp 9 ''5'') = Some [0]
   \<and> streaksOf (updateStreak weekdaysApp 9 ''5'') \<noteq> Some [5]"
proof -
  have l: "updateStreak_loop weekdaysLedger ''5'' 9 0 = Some 0"
    by (subst updateStreak_loop.simps) (simp add: weekdaysLedger_has)
  have "\<forall>i<5. hasCompletion weekdaysLedger (8 - int i) ''5''"
    unfolding weekdaysLedger_has by (auto simp: less_Suc_eq eval_nat_numeral)
  moreover have "\<not> hasCompletion weekdaysLedger (8 - int 5) ''5''"
    unfolding weekdaysLedger_has by simp
  ultimately have f: "updateStreak_loop weekdaysLedger ''5'' 8 0 = Some (0 + int 5)"
    by (rule updateStreak_loop_run)
  from l f show ?thesis
    by (simp add: weekdaysLedger_has day_def isHabitActiveToday_def exampleHabit_def
        updateStreak_def weekdaysApp_def streaksOf_def)
qed

text \<open>
  C2. For a finite ledger the backward walk returns: it stops after at most as many
  steps as the ledger has dates, at the first day without a completion, and at once
  when there is none today; \<^verbatim>\<open>updateStreak\<close> itself returns.
\<close>

theorem updateStreak_terminates:
  assumes "finite (dom (completions a))"
  shows "(\<exists>k. k \<le> card (dom (completions a))
              \<and> updateStreak_loop (completions a) habitId today 0 = Some (int k))
         \<and> (\<exists>a'. updateStreak a today habitId = Some a')"
proof -
  from updateStreak_loop_total[OF assms, of habitId today 0] obtain k where
    k: "k \<le> card (dom (completions a))"
       "updateStreak_loop (completions a) habitId today 0 = Some (int k)" by auto
  then have "\<exists>a'. updateStreak a today habitId = Some a'"
    by (simp add: updateStreak_def split: option.splits)
  with k show ?thesis by blast
qed

theorem updateStreak_terminates_witness:
  "finite (dom (completions weekdaysApp))
   \<and> (\<exists>k. k \<le> card (dom (completions weekdaysApp))
           \<and> updateStreak_loop (completions weekdaysApp) ''5'' 8 0 = Some (int k))
   \<and> (\<exists>a'. updateStreak weekdaysApp 8 ''5'' = Some a')"
proof -
  have f: "finite (dom (completions weekdaysApp))"
    by (simp add: weekdaysApp_def weekdaysLedger_def)
  show ?thesis using f updateStreak_terminates [OF f, of "''5''" 8] by simp
qed

subsection \<open>Deleting a habit\<close>

text \<open>
  C7. A confirmed \<^verbatim>\<open>deleteHabit\<close> keeps exactly the habits with another id, leaves no
  entry for the deleted id on any date, and leaves the entry of every other habit id on
  every date, and the set of dates, as they were.
\<close>

theorem deleteHabit_purges:
  "habits (deleteHabit a True habitId) = filter (\<lambda>h. id' h \<noteq> habitId) (habits a)
   \<and> habitId \<notin> id' ` set (habits (deleteHabit a True habitId))
   \<and> entry (completions (deleteHabit a True habitId)) d habitId = None
   \<and> (other \<noteq> habitId \<longrightarrow>
        entry (completions (deleteHabit a True habitId)) d other = entry (completions a) d other)
   \<and> dom (completions (deleteHabit a True habitId)) = dom (completions a)"
  by (auto simp: deleteHabit_def entry_def dom_def truthyAt_def split: option.splits)

theorem deleteHabit_purges_witness:
  "map id' (habits (deleteHabit twoHabitsApp True ''1'')) = [''2'']
   \<and> entry (completions twoHabitsApp) 10 ''1'' = Some (doneAt ''a'')
   \<and> entry (completions (deleteHabit twoHabitsApp True ''1'')) 10 ''1'' = None
   \<and> ''2'' \<noteq> ''1''
   \<and> entry (completions (deleteHabit twoHabitsApp True ''1'')) 10 ''2'' = Some (doneAt ''b'')"
  using deleteHabit_purges [of twoHabitsApp "''1''" 10 "''2''"]
  by (simp add: twoHabitsApp_def exampleHabit_def entry_def)

subsection \<open>Toggling an unknown habit\<close>

lemma find_id_None: "habitId \<notin> id' ` set hs \<Longrightarrow> find (\<lambda>h. id' h = habitId) hs = None"
  by (auto simp: find_None_iff)

text \<open>
  C10. For an id that no habit of the collection has, \<^verbatim>\<open>toggleHabitCompletion\<close> returns
  with every habit record as it was and with the same entry for every date and habit id;
  the ledger changes at most by an empty habit map for today.
\<close>

theorem toggle_unknown_habit:
  assumes "habitId \<notin> id' ` set (habits a)"
  shows "\<exists>a'. toggleHabitCompletion a today now habitId = Some a'
           \<and> habits a' = habits a
           \<and> (\<forall>d h. entry (completions a') d h = entry (completions a) d h)
           \<and> completions a' = (if completions a today = None
                                then (completions a)(today \<mapsto> Map.empty) else completions a)"
  using find_id_None[OF assms]
  by (auto simp: toggleHabitCompletion_def Let_def entry_def)

theorem toggle_unknown_habit_witness:
  "''9'' \<notin> id' ` set (habits twoHabitsApp)
   \<and> (\<exists>a'. toggleHabitCompletion twoHabitsApp 12 ''t'' ''9'' = Some a'
           \<and> habits a' = habits twoHabitsApp
           \<and> (\<forall>d h. entry (completions a') d h = entry (completions twoHabitsApp) d h)
           \<and> completions a' = (completions twoHabitsApp)(12 \<mapsto> Map.empty))"
proof -
  have h: "''9'' \<notin> id' ` set (habits twoHabitsApp)"
    by (simp add: twoHabitsApp_def exampleHabit_def)
  have n: "completions twoHabitsApp 12 = None" by (simp add: twoHabitsApp_def)
  show ?thesis using h toggle_unknown_habit [OF h, of 12 "''t''"] n by simp
qed

subsection \<open>Adding a habit\<close>

text \<open>
  C8, as the source has it. \<^verbatim>\<open>addHabit\<close> appends one habit to the collection. Its target
  is the integer \<^verbatim>\<open>parseInt\<close> reads from the input, and 1 when the input does not parse
  or parses to 0: a nonzero integer, positive whenever the input does not parse to a
  negative number. Its selected days are all seven weekdays when unset, its creation
  date is today, and its three counters are zero.
\<close>

theorem addHabit_appends_initialised_habit:
  "\<exists>h. habits (addHabit a idStamp today habitData) = habits a @ [h]
       \<and> target h = (case parseInt (habitData.target habitData) of
                       None \<Rightarrow> 1 | Some n \<Rightarrow> if n = 0 then 1 else n)
       \<and> target h \<noteq> 0
       \<and> ((\<forall>n. parseInt (habitData.target habitData) = Some n \<longrightarrow> 0 \<le> n) \<longrightarrow> 0 < target h)
       \<and> (habitData.selectedDays habitData = None \<longrightarrow> selectedDays h = [0, 1, 2, 3, 4, 5, 6])
       \<and> (\<forall>ds. habitData.selectedDays habitData = Some ds \<longrightarrow> selectedDays h = ds)
       \<and> createdAt h = today
       \<and> streak h = 0 \<and> bestStreak h = 0 \<and> totalCompletions h = 0"
  by (auto simp: addHabit_def split: option.splits)

lemma parseInt_3: "parseInt ''3'' = Some 3"
  by (simp add: parseInt_def isWhiteSpace_def digitValue_def Let_def)

theorem addHabit_appends_initialised_habit_witness:
  "parseInt ''3'' = Some 3
   \<and> (\<exists>h. habits (addHabit twoHabitsApp ''1700000000000'' 12 (exampleForm ''3'' None))
             = habits twoHabitsApp @ [h]
           \<and> target h = 3 \<and> 0 < target h
           \<and> selectedDays h = [0, 1, 2, 3, 4, 5, 6]
           \<and> createdAt h = 12
           \<and> streak h = 0 \<and> bestStreak h = 0 \<and> totalCompletions h = 0)"
  using addHabit_appends_initialised_habit
          [of twoHabitsApp "''1700000000000''" 12 "exampleForm ''3'' None"] parseInt_3
  by (auto simp: exampleForm_def)

text \<open>
  C8, as the claim states it, fails for an input that parses to a negative number: the
  text \<open>-5\<close> is read as \<open>-5\<close>, which is truthy, and becomes the target.
\<close>

theorem addHabit_negative_target_counterexample:
  "parseInt ''-5'' = Some (- 5)
   \<and> map target (habits (addHabit emptyApp ''1700000000000'' 12 (exampleForm ''-5'' None))) = [- 5]
   \<and> \<not> 0 < (- 5 :: int)"
  by (simp add: parseInt_def isWhiteSpace_def digitValue_def Let_def addHabit_def emptyApp_def
      exampleForm_def)

subsection \<open>Import\<close>

lemma truthy_getProp_hasKey:
  "getProp data k = Inr v \<Longrightarrow> truthy v \<Longrightarrow> hasKey data k"
  by (cases data) (force simp: hasKey_def split: option.splits dest!: map_of_SomeD)+

lemma getProp_Inl_iff: "(getProp data k = Inl e) = ((data = JNull \<or> data = JUndefined) \<and> e = TypeError)"
  by (cases data) auto

text \<open>
  C9. \<^verbatim>\<open>importData\<close> accepts a payload only when it is an object with both a \<open>habits\<close>
  and a \<open>completions\<close> member. Any other payload ends in the error branch with the
  stored habits, completions and settings exactly as before; for a payload that parsed
  to something other than \<^verbatim>\<open>null\<close> the error is \<^verbatim>\<open>'Invalid data format'\<close>.
\<close>

theorem importData_requires_both_keys:
  "(fst (importData st parsed) = None \<longrightarrow>
      (\<exists>data. parsed = Some data \<and> hasKey data ''habits'' \<and> hasKey data ''completions''))
   \<and> (\<not> (\<exists>data. parsed = Some data \<and> hasKey data ''habits'' \<and> hasKey data ''completions'') \<longrightarrow>
      (\<exists>e. importData st parsed = (Some e, st)))
   \<and> (parsed = Some data \<and> data \<noteq> JNull \<and> data \<noteq> JUndefined
        \<and> \<not> (hasKey data ''habits'' \<and> hasKey data ''completions'') \<longrightarrow>
      importData st parsed = (Some (Error ''Invalid data format''), st))"
proof (intro conjI impI)
  assume "fst (importData st parsed) = None"
  then show "\<exists>data. parsed = Some data \<and> hasKey data ''habits'' \<and> hasKey data ''completions''"
    by (auto simp: importData_def Let_def split: option.splits sum.splits if_splits
        intro: truthy_getProp_hasKey)
next
  assume "\<not> (\<exists>data. parsed = Some data \<and> hasKey data ''habits'' \<and> hasKey data ''completions'')"
  then show "\<exists>e. importData st parsed = (Some e, st)"
    by (auto simp: importData_def Let_def split: option.splits sum.splits
        dest: truthy_getProp_hasKey)
next
  assume "parsed = Some data \<and> data \<noteq> JNull \<and> data \<noteq> JUndefined
            \<and> \<not> (hasKey data ''habits'' \<and> hasKey data ''completions'')"
  then show "importData st parsed = (Some (Error ''Invalid data format''), st)"
    by (auto simp: importData_def Let_def getProp_Inl_iff split: option.splits sum.splits
        dest: truthy_getProp_hasKey)
qed

theorem importData_requires_both_keys_witness:
  "\<not> hasKey (JObject [(''habits'', JArray [])]) ''completions''
   \<and> importData emptyStored (Some (JObject [(''habits'', JArray [])]))
       = (Some (Error ''Invalid data format''), emptyStored)
   \<and> hasKey (JObject [(''habits'', JArray []), (''completions'', JObject [])]) ''habits''
   \<and> hasKey (JObject [(''habits'', JArray []), (''completions'', JObject [])]) ''completions''
   \<and> fst (importData emptyStored
            (Some (JObject [(''habits'', JArray []), (''completions'', JObject [])]))) = None"
  using importData_requires_both_keys
          [of emptyStored "Some (JObject [(''habits'', JArray [])])" "JObject [(''habits'', JArray [])]"]
        importData_requires_both_keys
          [of emptyStored "Some (JObject [(''habits'', JArray []), (''completions'', JObject [])])"
              "JObject [(''habits'', JArray []), (''completions'', JObject [])]"]
  by (simp add: hasKey_def importData_def)

subsection \<open>Toggling a completion\<close>

lemma modifyFirst_pres:
  "(\<And>x. P x \<Longrightarrow> P (f x)) \<Longrightarrow> \<forall>x\<in>set xs. P x \<Longrightarrow> \<forall>x\<in>set (modifyFirst p f xs). P x"
  by (induction xs) auto

lemma modifyFirst_twice:
  "(\<And>x. p x \<Longrightarrow> p (f x)) \<Longrightarrow>
   modifyFirst p g (modifyFirst p f xs) = modifyFirst p (\<lambda>x. g (f x)) xs"
  by (induction xs) auto



lemma updateStreak_result:
  assumes "finite (dom (completions a))"
  shows "\<exists>k. updateStreak a today habitId =
           Some (a\<lparr>habits := modifyFirst (\<lambda>h. id' h = habitId)
                               (\<lambda>h. h\<lparr>streak := int k, bestStreak := max (bestStreak h) (int k)\<rparr>)
                               (habits a)\<rparr>)"
proof -
  from updateStreak_loop_total[OF assms, of habitId today 0] obtain k where
    k: "updateStreak_loop (completions a) habitId today 0 = Some (int k)" by auto
  show ?thesis
  proof (cases "find (\<lambda>h. id' h = habitId) (habits a)")
    case None
    then show ?thesis by (simp add: updateStreak_def modifyFirst_no_match)
  next
    case (Some h)
    with k show ?thesis by (auto simp: updateStreak_def)
  qed
qed

text \<open>
  The shape of every result of \<^verbatim>\<open>toggleHabitCompletion\<close> on a finite ledger: the ledger
  stays finite, and the habits are the old ones with the first habit of that id changed
  in one of three ways.
\<close>

lemma toggle_result:
  assumes fin: "finite (dom (completions a))"
  shows "\<exists>a'. toggleHabitCompletion a today now habitId = Some a'
           \<and> finite (dom (completions a'))
           \<and> (habits a' = habits a
              \<or> habits a' = modifyFirst (\<lambda>h. id' h = habitId)
                               (\<lambda>h. h\<lparr>totalCompletions := max 0 (totalCompletions h - 1)\<rparr>)
                               (habits a)
              \<or> (\<exists>k. habits a' = modifyFirst (\<lambda>h. id' h = habitId)
                               (\<lambda>h. h\<lparr>totalCompletions := totalCompletions h + 1,
                                       streak := int k, bestStreak := max (bestStreak h) (int k)\<rparr>)
                               (habits a)))"
proof -
  let ?comps1 = "if completions a today = None
                 then (completions a)(today \<mapsto> Map.empty) else completions a"
  let ?todays = "case ?comps1 today of None \<Rightarrow> Map.empty | Some m \<Rightarrow> m"
  have fin1: "finite (dom ?comps1)" using fin by simp
  show ?thesis
  proof (cases "find (\<lambda>h. id' h = habitId) (habits a)")
    case None
    then show ?thesis using fin1 by (simp add: toggleHabitCompletion_def)
  next
    case (Some h)
    show ?thesis
    proof (cases "truthyAt ?todays habitId")
      case True
      then show ?thesis using Some fin1
        by (simp add: toggleHabitCompletion_def Let_def)
    next
      case False
      let ?a2 = "a\<lparr>completions := ?comps1(today \<mapsto>
                                      ?todays(habitId \<mapsto> \<lparr>completed = True, timestamp = now\<rparr>)),
                   habits := modifyFirst (\<lambda>h. id' h = habitId)
                               (\<lambda>h. h\<lparr>totalCompletions := totalCompletions h + 1\<rparr>)
                               (habits a)\<rparr>"
      have t: "toggleHabitCompletion a today now habitId = updateStreak ?a2 today habitId"
        using Some False by (simp add: toggleHabitCompletion_def Let_def)
      have fin2: "finite (dom (completions ?a2))" using fin1 by simp
      from updateStreak_result[OF fin2, of today habitId] obtain k where
        k: "updateStreak ?a2 today habitId =
              Some (?a2\<lparr>habits := modifyFirst (\<lambda>h. id' h = habitId)
                               (\<lambda>h. h\<lparr>streak := int k, bestStreak := max (bestStreak h) (int k)\<rparr>)
                               (habits ?a2)\<rparr>)" by blast
      show ?thesis
        unfolding t k using fin1
        by (auto simp: modifyFirst_twice)
    qed
  qed
qed

lemma toggle_countersOk:
  assumes "finite (dom (completions a))" and "\<forall>h\<in>set (habits a). countersOk h"
  shows "\<exists>a'. toggleHabitCompletion a today now habitId = Some a'
           \<and> finite (dom (completions a')) \<and> (\<forall>h\<in>set (habits a'). countersOk h)"
proof -
  from toggle_result[OF assms(1), of today now habitId] obtain a' where
    a': "toggleHabitCompletion a today now habitId = Some a'" "finite (dom (completions a'))"
    and shape: "habits a' = habits a
              \<or> habits a' = modifyFirst (\<lambda>h. id' h = habitId)
                               (\<lambda>h. h\<lparr>totalCompletions := max 0 (totalCompletions h - 1)\<rparr>)
                               (habits a)
              \<or> (\<exists>k. habits a' = modifyFirst (\<lambda>h. id' h = habitId)
                               (\<lambda>h. h\<lparr>totalCompletions := totalCompletions h + 1,
                                       streak := int k, bestStreak := max (bestStreak h) (int k)\<rparr>)
                               (habits a))" by blast
  have "\<forall>h\<in>set (habits a'). countersOk h"
    using shape
  proof (elim disjE exE)
    assume "habits a' = habits a"
    then show ?thesis using assms(2) by simp
  next
    assume e: "habits a' = modifyFirst (\<lambda>h. id' h = habitId)
                 (\<lambda>h. h\<lparr>totalCompletions := max 0 (totalCompletions h - 1)\<rparr>) (habits a)"
    show ?thesis unfolding e
      by (rule modifyFirst_pres[OF _ assms(2)]) (simp add: countersOk_def)
  next
    fix k
    assume e: "habits a' = modifyFirst (\<lambda>h. id' h = habitId)
                 (\<lambda>h. h\<lparr>totalCompletions := totalCompletions h + 1,
                         streak := int k, bestStreak := max (bestStreak h) (int k)\<rparr>) (habits a)"
    show ?thesis unfolding e
      by (rule modifyFirst_pres[OF _ assms(2)]) (simp add: countersOk_def)
  qed
  with a' show ?thesis by blast
qed

lemma toggleAll_countersOk:
  "finite (dom (completions a)) \<Longrightarrow> \<forall>h\<in>set (habits a). countersOk h \<Longrightarrow>
   \<exists>a'. toggleAll a calls = Some a' \<and> (\<forall>h\<in>set (habits a'). countersOk h)"
proof (induction calls arbitrary: a)
  case Nil
  then show ?case by simp
next
  case (Cons c calls)
  obtain today now habitId where c: "c = (today, now, habitId)" by (cases c) auto
  from toggle_countersOk[OF Cons.prems, of today now habitId] obtain a1 where
    a1: "toggleHabitCompletion a today now habitId = Some a1"
        "finite (dom (completions a1))" "\<forall>h\<in>set (habits a1). countersOk h" by blast
  from Cons.IH[OF a1(2) a1(3)] show ?case using a1(1) c by simp
qed

text \<open>
  C3. Start from habits whose three counters are zero, on a finite ledger, and make any
  sequence of \<^verbatim>\<open>toggleHabitCompletion\<close> calls, for any habit ids at any clock readings.
  Every call returns, and after each call (after the first \<open>n\<close> calls, for every \<open>n\<close>)
  every habit has \<open>bestStreak \<ge> streak \<ge> 0\<close> and \<open>totalCompletions \<ge> 0\<close>.
\<close>

theorem toggle_sequence_counters:
  assumes "finite (dom (completions a))"
    and "\<forall>h\<in>set (habits a). streak h = 0 \<and> bestStreak h = 0 \<and> totalCompletions h = 0"
  shows "\<exists>a'. toggleAll a (take n calls) = Some a'
           \<and> (\<forall>h\<in>set (habits a').
                 0 \<le> streak h \<and> streak h \<le> bestStreak h \<and> 0 \<le> totalCompletions h)"
proof -
  from assms(2) have "\<forall>h\<in>set (habits a). countersOk h" by (simp add: countersOk_def)
  from toggleAll_countersOk[OF assms(1) this, of "take n calls"]
  show ?thesis by (simp add: countersOk_def)
qed

theorem toggle_sequence_counters_witness:
  "finite (dom (completions staleCounterApp))
   \<and> streaksOf (Some staleCounterApp) = Some [0]
   \<and> map bestStreak (habits staleCounterApp) = [0]
   \<and> totalsOf (Some staleCounterApp) = Some [0]
   \<and> streaksOf (toggleAll staleCounterApp
        (take 2 [(11, ''t1'', ''1''), (12, ''t2'', ''1''), (12, ''t3'', ''1'')])) = Some [3]
   \<and> totalsOf (toggleAll staleCounterApp
        (take 2 [(11, ''t1'', ''1''), (12, ''t2'', ''1''), (12, ''t3'', ''1'')])) = Some [2]
   \<and> (\<exists>a'. toggleAll staleCounterApp
              (take 2 [(11, ''t1'', ''1''), (12, ''t2'', ''1''), (12, ''t3'', ''1'')]) = Some a'
           \<and> (\<forall>h\<in>set (habits a').
                 0 \<le> streak h \<and> streak h \<le> bestStreak h \<and> 0 \<le> totalCompletions h))"
proof -
  have f: "finite (dom (completions staleCounterApp))" by (simp add: staleCounterApp_def)
  have z: "\<forall>h\<in>set (habits staleCounterApp).
             streak h = 0 \<and> bestStreak h = 0 \<and> totalCompletions h = 0"
    by (simp add: staleCounterApp_def exampleHabit_def)
  have e: "toggleAll staleCounterApp
             (take 2 [(11, ''t1'', ''1''), (12, ''t2'', ''1''), (12, ''t3'', ''1'')])
           = Some (staleCounterApp
                \<lparr>completions := [10 \<mapsto> [''1'' \<mapsto> doneAt ''1970-01-11 08:00:00''],
                                 11 \<mapsto> [''1'' \<mapsto> \<lparr>completed = True, timestamp = ''t1''\<rparr>],
                                 12 \<mapsto> [''1'' \<mapsto> \<lparr>completed = True, timestamp = ''t2''\<rparr>]],
                  habits := [exampleHabit ''1'' ''daily'' [0, 1, 2, 3, 4, 5, 6]
                               \<lparr>streak := 3, bestStreak := 3, totalCompletions := 2\<rparr>]\<rparr>)"
    by (simp add: staleCounterApp_def exampleHabit_def toggleHabitCompletion_def updateStreak_def
        hasCompletion_def truthyAt_def Let_def updateStreak_loop.simps)
  show ?thesis
    using f toggle_sequence_counters [OF f z, of 2 "[(11, ''t1'', ''1''), (12, ''t2'', ''1''), (12, ''t3'', ''1'')]"]
    unfolding e
    by (simp add: streaksOf_def totalsOf_def staleCounterApp_def exampleHabit_def)
qed

subsection \<open>Toggling twice\<close>






subsection \<open>Correlation\<close>

lemma pSum_sum:
  "foldl (\<lambda>a (b, i). a + b * ys ! i) s (zip xs [k..<k + length xs])
     = s + (\<Sum>j<length xs. xs ! j * (ys ! (k + j) :: real))"
proof (induction xs arbitrary: k s)
  case Nil
  then show ?case by simp
next
  case (Cons x xs)
  let ?f = "\<lambda>a (b, i). a + b * ys ! i"
  have u: "[k..<k + length (x # xs)] = k # [Suc k..<Suc k + length xs]"
    using upt_conv_Cons[of k "k + Suc (length xs)"] by simp
  have "foldl ?f s (zip (x # xs) [k..<k + length (x # xs)])
          = foldl ?f (s + x * ys ! k) (zip xs [Suc k..<Suc k + length xs])"
    by (simp only: u zip_Cons_Cons foldl_Cons prod.case)
  also have "\<dots> = s + x * ys ! k + (\<Sum>j<length xs. xs ! j * ys ! (Suc k + j))"
    by (rule Cons.IH)
  also have "\<dots> = s + (\<Sum>j<length (x # xs). (x # xs) ! j * ys ! (k + j))"
    using sum.lessThan_Suc_shift[of "\<lambda>j. (x # xs) ! j * ys ! (k + j)" "length xs"]
    by (simp del: sum.lessThan_Suc)
  finally show ?case .
qed

lemma pSum_commute:
  assumes "length xs = length ys"
  shows "foldl (\<lambda>a (b, i). a + b * ys ! i) 0 (zip xs [0..<length xs])
           = foldl (\<lambda>a (b, i). a + b * xs ! i) (0 :: real) (zip ys [0..<length ys])"
  using pSum_sum[of ys 0 xs 0] pSum_sum[of xs 0 ys 0] assms
  by (simp add: mult.commute)

lemma calculateCorrelation_commute:
  "calculateCorrelation a today habitId1 habitId2 = calculateCorrelation a today habitId2 habitId1"
proof -
  let ?r = "getDateRangeData a today"
  let ?c1 = "map (\<lambda>d. if hasCompletion (completions a) d habitId1 then 1 else (0::real)) ?r"
  let ?c2 = "map (\<lambda>d. if hasCompletion (completions a) d habitId2 then 1 else (0::real)) ?r"
  have p: "foldl (\<lambda>a (b, i). a + b * ?c2 ! i) 0 (zip ?c1 [0..<length ?c1])
             = foldl (\<lambda>a (b, i). a + b * ?c1 ! i) 0 (zip ?c2 [0..<length ?c2])"
    by (rule pSum_commute) simp
  show ?thesis
    unfolding calculateCorrelation_def Let_def p
    by (simp add: mult.commute)
qed

text \<open>
  C5. The correlation computed by \<^verbatim>\<open>calculateCorrelation\<close> is the same for a pair of
  habit ids in either order, over every ledger and date range; the matrix of
  \<^verbatim>\<open>renderCorrelationHeatmap\<close> has 1 at every diagonal position and equal entries at
  mirrored positions.
\<close>

theorem correlation_symmetric:
  "calculateCorrelation a today habitId1 habitId2 = calculateCorrelation a today habitId2 habitId1
   \<and> (correlationMatrix a today = Some M \<longrightarrow> i < length M \<longrightarrow> j < length M \<longrightarrow>
        M ! i ! i = 1 \<and> M ! i ! j = M ! j ! i)"
proof (intro conjI impI)
  show "calculateCorrelation a today habitId1 habitId2 = calculateCorrelation a today habitId2 habitId1"
    by (rule calculateCorrelation_commute)
next
  assume M: "correlationMatrix a today = Some M" and i: "i < length M" and j: "j < length M"
  let ?cell = "\<lambda>habit1 habit2. if id' habit1 = id' habit2 then 1
                 else calculateCorrelation a today (id' habit1) (id' habit2)"
  from M have Meq: "M = map (\<lambda>habit1. map (?cell habit1) (topHabits a)) (topHabits a)"
    by (simp add: correlationMatrix_def split: if_splits)
  from i j Meq have i': "i < length (topHabits a)" and j': "j < length (topHabits a)" by simp_all
  have ij: "M ! i ! j = ?cell (topHabits a ! i) (topHabits a ! j)"
    and ji: "M ! j ! i = ?cell (topHabits a ! j) (topHabits a ! i)"
    and ii: "M ! i ! i = ?cell (topHabits a ! i) (topHabits a ! i)"
    using i' j' by (simp_all add: Meq)
  show "M ! i ! i = 1" unfolding ii by simp
  show "M ! i ! j = M ! j ! i" unfolding ij ji
    by (simp add: calculateCorrelation_commute[of a today "id' (topHabits a ! i)"])
qed

lemma twoHabits_top: "map id' (topHabits twoHabitsApp) = [''1'', ''2'']"
  by (simp add: topHabits_def twoHabitsApp_def exampleHabit_def)

theorem correlation_symmetric_witness:
  "\<exists>M. correlationMatrix twoHabitsApp 11 = Some M \<and> (0::nat) < length M \<and> (1::nat) < length M
       \<and> M ! 0 ! 0 = 1 \<and> M ! 0 ! 1 = M ! 1 ! 0
       \<and> calculateCorrelation twoHabitsApp 11 ''1'' ''2'' = calculateCorrelation twoHabitsApp 11 ''2'' ''1''"
proof -
  have l: "length (topHabits twoHabitsApp) = 2"
    using twoHabits_top by (metis length_map length_Cons list.size(3) numeral_2_eq_2)
  obtain M where M: "correlationMatrix twoHabitsApp 11 = Some M" and len: "length M = 2"
    using l by (simp add: correlationMatrix_def twoHabitsApp_def)
  from len have i: "0 < length M" and j: "1 < length M" by simp_all
  show ?thesis
    using M i j correlation_symmetric [of twoHabitsApp 11 "''1''" "''2''" M 0 1] by blast
qed

subsection \<open>Zero denominators\<close>

lemma foldl_add_const:
  "foldl (\<lambda>a b. a + b) s (map (\<lambda>d. c) xs) = s + c * real (length xs)"
  by (induction xs arbitrary: s) (simp_all add: algebra_simps)

lemma foldl_sq_const:
  "foldl (\<lambda>a b. a + b * b) s (map (\<lambda>d. c) xs) = s + c * c * real (length xs)"
  by (induction xs arbitrary: s) (simp_all add: algebra_simps)

lemma calculateCorrelation_constant:
  assumes "\<forall>d\<in>set (getDateRangeData a today). hasCompletion (completions a) d habitId1 = b"
  shows "calculateCorrelation a today habitId1 habitId2 = 0"
proof -
  let ?r = "getDateRangeData a today"
  define c :: real where "c = (if b then 1 else 0)"
  have m: "map (\<lambda>d. if hasCompletion (completions a) d habitId1 then 1 else (0::real)) ?r
             = map (\<lambda>d. c) ?r"
    using assms by (auto simp: c_def)
  have "(c * c * real (length ?r) - c * real (length ?r) * (c * real (length ?r)) / real (length ?r)) = 0"
    by (cases "length ?r = 0") simp_all
  then show ?thesis
    unfolding calculateCorrelation_def Let_def m
    by (simp add: foldl_add_const foldl_sq_const)
qed

text \<open>
  C6. Each metric returns 0 where its denominator is zero: the completion rate when no
  habit is due today, the consistency score when the habit has no due day in the last
  30 days, the target achievement when the category's target count is 0, and the
  correlation when the date range is empty or one of the two completion vectors is
  constant (zero variance). None of them can raise: they are total functions whose
  divisions are guarded.
\<close>

theorem zero_denominator_returns_zero:
  "(filter (isHabitActiveToday today) (habits a) = [] \<longrightarrow> completionRate a today = 0)
   \<and> (getLast30DaysPossible today h = 0 \<longrightarrow> consistencyScore a today h = 0)
   \<and> (targetCompletions a today cat = 0 \<longrightarrow> targetAchievement a today cat = 0)
   \<and> (getDateRangeData a today = [] \<longrightarrow> calculateCorrelation a today habitId1 habitId2 = 0)
   \<and> ((\<forall>d\<in>set (getDateRangeData a today). hasCompletion (completions a) d habitId1 = b)
        \<longrightarrow> calculateCorrelation a today habitId1 habitId2 = 0
            \<and> calculateCorrelation a today habitId2 habitId1 = 0)"
proof (intro conjI impI)
  assume "filter (isHabitActiveToday today) (habits a) = []"
  then show "completionRate a today = 0" by (simp add: completionRate_def)
next
  assume "getLast30DaysPossible today h = 0"
  then show "consistencyScore a today h = 0" by (simp add: consistencyScore_def)
next
  assume "targetCompletions a today cat = 0"
  then show "targetAchievement a today cat = 0" by (simp add: targetAchievement_def)
next
  assume "getDateRangeData a today = []"
  then show "calculateCorrelation a today habitId1 habitId2 = 0"
    by (simp add: calculateCorrelation_def)
next
  assume c: "\<forall>d\<in>set (getDateRangeData a today). hasCompletion (completions a) d habitId1 = b"
  show "calculateCorrelation a today habitId1 habitId2 = 0"
    using c by (rule calculateCorrelation_constant)
  show "calculateCorrelation a today habitId2 habitId1 = 0"
    unfolding calculateCorrelation_commute[of a today habitId2 habitId1]
    using c by (rule calculateCorrelation_constant)
qed

theorem zero_denominator_returns_zero_witness:
  "filter (isHabitActiveToday 12) (habits idleApp) = [] \<and> completionRate idleApp 12 = 0
   \<and> getLast30DaysPossible 12 (exampleHabit ''7'' ''custom'' []) = 0
   \<and> consistencyScore idleApp 12 (exampleHabit ''7'' ''custom'' []) = 0
   \<and> targetCompletions idleApp 12 ''productivity'' = 0
   \<and> targetAchievement idleApp 12 ''productivity'' = 0
   \<and> filter (\<lambda>d. hasCompletion (completions idleApp) d ''7'') (getDateRangeData idleApp 12) = []
   \<and> length (getDateRangeData idleApp 12) = 30
   \<and> calculateCorrelation idleApp 12 ''7'' ''8'' = 0
   \<and> getDateRangeData (idleApp\<lparr>dateRangeDays := 0\<rparr>) 12 = []
   \<and> calculateCorrelation (idleApp\<lparr>dateRangeDays := 0\<rparr>) 12 ''7'' ''8'' = 0"
proof -
  have h1: "filter (isHabitActiveToday 12) (habits idleApp) = []"
    by (simp add: idleApp_def isHabitActiveToday_def exampleHabit_def)
  have h2: "getLast30DaysPossible 12 (exampleHabit ''7'' ''custom'' []) = 0"
    by (simp add: getLast30DaysPossible_def exampleHabit_def)
  have h3: "targetCompletions idleApp 12 ''productivity'' = 0"
    by (simp add: targetCompletions_def idleApp_def exampleHabit_def getLast30DaysPossible_def)
  have h4: "\<forall>d\<in>set (getDateRangeData idleApp 12). hasCompletion (completions idleApp) d ''7'' = False"
    by (simp add: idleApp_def hasCompletion_def truthyAt_def)
  have h5: "getDateRangeData (idleApp\<lparr>dateRangeDays := 0\<rparr>) 12 = []"
    by (simp add: getDateRangeData_def idleApp_def)
  have h6: "length (getDateRangeData idleApp 12) = 30"
    by (simp add: getDateRangeData_def idleApp_def)
  have h7: "filter (\<lambda>d. hasCompletion (completions idleApp) d ''7'') (getDateRangeData idleApp 12) = []"
    using h4 by (simp add: filter_empty_conv)
  show ?thesis
    using h1 h2 h3 h4 h5 h6 h7
      zero_denominator_returns_zero [of 12 idleApp "exampleHabit ''7'' ''custom'' []"
        "''productivity''" "''7''" "''8''" False]
      zero_denominator_returns_zero [of 12 "idleApp\<lparr>dateRangeDays := 0\<rparr>"
        "exampleHabit ''7'' ''custom'' []" "''productivity''" "''7''" "''8''" False]
    by simp
qed

end
